theory Spec2Isabelle
  imports Complex_Main "HOL-Library.Sublist"
begin

section \<open>Soil tension curve calculator: the model functions and the fit driver\<close>

text \<open>
  The program (\<^verbatim>\<open>SoilTentionCurve_2.py\<close>) fits one of three soil water retention
  models to (tension, water content) measurements with SciPy's \<^verbatim>\<open>curve_fit\<close>. This
  theory embeds the three model functions \<^verbatim>\<open>VG\<close>, \<^verbatim>\<open>Campbell\<close>, \<^verbatim>\<open>BC\<close>, the
  helper \<^verbatim>\<open>sig_symbol\<close>, the column extraction \<^verbatim>\<open>return_column\<close> and the driver
  \<^verbatim>\<open>curve\<close>.
\<close>

subsection \<open>NumPy's float64 values, idealised\<close>

text \<open>
  The model functions are called with NumPy values only: the tension is an
  \<^verbatim>\<open>ndarray\<close> and the parameters are the \<^verbatim>\<open>float64\<close> entries of the parameter
  array which \<^verbatim>\<open>curve_fit\<close> (and \<^verbatim>\<open>*popt\<close> in the plot) unpacks. On these, no
  arithmetic operation raises: a division by zero or an invalid power gives
  \<^verbatim>\<open>inf\<close> or \<^verbatim>\<open>nan\<close> (and a warning). A value is therefore a finite number, one of
  the two infinities, or NaN.

  A finite value is a real number; how a result is rounded is a parameter of the
  arithmetic (below). Overflow and underflow are not modelled, and zero has no sign
  (it behaves as \<^verbatim>\<open>+0.0\<close>).
  The functions are applied to one tension value; the program applies them
  element by element to the array.
\<close>

datatype npfloat = Fin real | PInf | NInf | NaN

text \<open>
  Every arithmetic operation takes the rounding \<open>r\<close> that is applied to a finite
  result: \<open>exact\<close> is arithmetic on the real numbers, \<open>fl64\<close> rounds to the
  nearest number with a 53 bit significand, ties to even, as binary64 does inside its
  exponent range.
\<close>

type_synonym rounding = "real \<Rightarrow> real"

definition exact :: rounding where
  "exact x = x"

definition round_half_even :: "real \<Rightarrow> int" where
  "round_half_even x =
     (let f = \<lfloor>x\<rfloor>; d = x - of_int f
      in if d < 1 / 2 then f else if 1 / 2 < d then f + 1
         else if even f then f else f + 1)"

definition fl64 :: rounding where
  "fl64 x =
     (if x = 0 then 0
      else let e = \<lfloor>log 2 \<bar>x\<bar>\<rfloor> - 52
           in of_int (round_half_even (x / 2 powi e)) * 2 powi e)"

fun np_neg :: "npfloat \<Rightarrow> npfloat" where
  "np_neg (Fin a) = Fin (- a)"
| "np_neg PInf = NInf"
| "np_neg NInf = PInf"
| "np_neg NaN = NaN"

fun np_add :: "rounding \<Rightarrow> npfloat \<Rightarrow> npfloat \<Rightarrow> npfloat" where
  "np_add r (Fin a) (Fin b) = Fin (r (a + b))"
| "np_add r NaN _ = NaN"
| "np_add r _ NaN = NaN"
| "np_add r PInf NInf = NaN"
| "np_add r NInf PInf = NaN"
| "np_add r PInf _ = PInf"
| "np_add r _ PInf = PInf"
| "np_add r NInf _ = NInf"
| "np_add r _ NInf = NInf"

definition np_sub :: "rounding \<Rightarrow> npfloat \<Rightarrow> npfloat \<Rightarrow> npfloat" where
  "np_sub r x y = np_add r x (np_neg y)"

text \<open>The infinity of a given sign.\<close>

definition inf_of :: "bool \<Rightarrow> npfloat" where
  "inf_of positive = (if positive then PInf else NInf)"

fun np_mul :: "rounding \<Rightarrow> npfloat \<Rightarrow> npfloat \<Rightarrow> npfloat" where
  "np_mul r (Fin a) (Fin b) = Fin (r (a * b))"
| "np_mul r NaN _ = NaN"
| "np_mul r _ NaN = NaN"
| "np_mul r (Fin a) PInf = (if a = 0 then NaN else inf_of (0 < a))"
| "np_mul r (Fin a) NInf = (if a = 0 then NaN else inf_of (a < 0))"
| "np_mul r PInf (Fin b) = (if b = 0 then NaN else inf_of (0 < b))"
| "np_mul r NInf (Fin b) = (if b = 0 then NaN else inf_of (b < 0))"
| "np_mul r PInf PInf = PInf"
| "np_mul r NInf NInf = PInf"
| "np_mul r PInf NInf = NInf"
| "np_mul r NInf PInf = NInf"

text \<open>
  Division: a finite non-zero number divided by zero is an infinity, \<^verbatim>\<open>0/0\<close> and
  \<^verbatim>\<open>inf/inf\<close> are NaN, a finite number divided by an infinity is zero.
\<close>

fun np_div :: "rounding \<Rightarrow> npfloat \<Rightarrow> npfloat \<Rightarrow> npfloat" where
  "np_div r (Fin a) (Fin b) =
     (if b = 0 then (if a = 0 then NaN else inf_of (0 < a)) else Fin (r (a / b)))"
| "np_div r NaN _ = NaN"
| "np_div r _ NaN = NaN"
| "np_div r (Fin a) PInf = Fin 0"
| "np_div r (Fin a) NInf = Fin 0"
| "np_div r PInf (Fin b) = inf_of (0 \<le> b)"
| "np_div r NInf (Fin b) = inf_of (b < 0)"
| "np_div r PInf PInf = NaN"
| "np_div r PInf NInf = NaN"
| "np_div r NInf PInf = NaN"
| "np_div r NInf NInf = NaN"

text \<open>
  The power \<^verbatim>\<open>x ** y\<close> of float64 values is C's \<^verbatim>\<open>pow\<close>: anything to the power
  zero is one and one to any power is one (also for NaN); a negative finite base with
  a finite exponent that is not an integer is NaN; zero to a negative power is
  \<^verbatim>\<open>inf\<close>.
\<close>

definition is_integer :: "real \<Rightarrow> bool" where
  "is_integer b = (of_int \<lfloor>b\<rfloor> = b)"

definition is_odd_integer :: "real \<Rightarrow> bool" where
  "is_odd_integer b = (is_integer b \<and> odd \<lfloor>b\<rfloor>)"

definition pow_fin :: "rounding \<Rightarrow> real \<Rightarrow> real \<Rightarrow> npfloat" where
  "pow_fin r a b =
     (if b = 0 \<or> a = 1 then Fin 1
      else if 0 < a then Fin (r (a powr b))
      else if a = 0 then (if 0 < b then Fin 0 else PInf)
      else if is_integer b
        then Fin (r (if is_odd_integer b then - (\<bar>a\<bar> powr b) else \<bar>a\<bar> powr b))
      else NaN)"

fun np_pow :: "rounding \<Rightarrow> npfloat \<Rightarrow> npfloat \<Rightarrow> npfloat" where
  "np_pow r (Fin a) (Fin b) = pow_fin r a b"
| "np_pow r NaN (Fin b) = (if b = 0 then Fin 1 else NaN)"
| "np_pow r (Fin a) NaN = (if a = 1 then Fin 1 else NaN)"
| "np_pow r (Fin a) PInf =
     (if \<bar>a\<bar> = 1 then Fin 1 else if \<bar>a\<bar> < 1 then Fin 0 else PInf)"
| "np_pow r (Fin a) NInf =
     (if \<bar>a\<bar> = 1 then Fin 1 else if \<bar>a\<bar> < 1 then PInf else Fin 0)"
| "np_pow r PInf (Fin b) = (if b = 0 then Fin 1 else if b < 0 then Fin 0 else PInf)"
| "np_pow r NInf (Fin b) =
     (if b = 0 then Fin 1 else if b < 0 then Fin 0
      else if is_odd_integer b then NInf else PInf)"
| "np_pow r PInf PInf = PInf"
| "np_pow r PInf NInf = Fin 0"
| "np_pow r NInf PInf = PInf"
| "np_pow r NInf NInf = Fin 0"
| "np_pow r NaN _ = NaN"
| "np_pow r _ NaN = NaN"

text \<open>Comparisons: every comparison with NaN is false.\<close>

fun np_le :: "npfloat \<Rightarrow> npfloat \<Rightarrow> bool" where
  "np_le (Fin a) (Fin b) = (a \<le> b)"
| "np_le NaN _ = False"
| "np_le _ NaN = False"
| "np_le NInf _ = True"
| "np_le _ PInf = True"
| "np_le PInf _ = False"
| "np_le _ NInf = False"

definition np_gt :: "npfloat \<Rightarrow> npfloat \<Rightarrow> bool" where
  "np_gt x y = (x \<noteq> NaN \<and> y \<noteq> NaN \<and> \<not> np_le x y)"

text \<open>\<^verbatim>\<open>np.where(c, a, b)\<close> on one element: both \<open>a\<close> and \<open>b\<close> have been computed,
  the condition selects one of them.\<close>

definition np_where :: "bool \<Rightarrow> npfloat \<Rightarrow> npfloat \<Rightarrow> npfloat" where
  "np_where c a b = (if c then a else b)"

subsection \<open>The model functions\<close>

text \<open>
  \<^verbatim>\<open>
  def VG(x, qs, qr, alpha, n):
      se = 1. / ((1 + (alpha * x) ** n) ** (1 - 1.0 / n))
      return se * (qs - qr) + qr
  \<close>
\<close>

definition VG ::
  "rounding \<Rightarrow> npfloat \<Rightarrow> npfloat \<Rightarrow> npfloat \<Rightarrow> npfloat \<Rightarrow> npfloat \<Rightarrow> npfloat" where
  "VG r x qs qr alpha n =
     (let se = np_div r (Fin 1)
                 (np_pow r (np_add r (Fin 1) (np_pow r (np_mul r alpha x) n))
                           (np_sub r (Fin 1) (np_div r (Fin 1) n)))
      in np_add r (np_mul r se (np_sub r qs qr)) qr)"

text \<open>
  The Van Genuchten formula in the words of the specification, for comparison with
  \<open>VG\<close>: effective saturation \<open>Se = [1 + (alpha x)^n]^(-(1 - 1/n))\<close>, prediction
  \<open>Se (qs - qr) + qr\<close>.
\<close>

definition Se_spec :: "rounding \<Rightarrow> npfloat \<Rightarrow> npfloat \<Rightarrow> npfloat \<Rightarrow> npfloat" where
  "Se_spec r x alpha n =
     np_pow r (np_add r (Fin 1) (np_pow r (np_mul r alpha x) n))
              (np_neg (np_sub r (Fin 1) (np_div r (Fin 1) n)))"

definition VG_spec ::
  "rounding \<Rightarrow> npfloat \<Rightarrow> npfloat \<Rightarrow> npfloat \<Rightarrow> npfloat \<Rightarrow> npfloat \<Rightarrow> npfloat" where
  "VG_spec r x qs qr alpha n =
     np_add r (np_mul r (Se_spec r x alpha n) (np_sub r qs qr)) qr"

text \<open>
  \<^verbatim>\<open>
  def Campbell(x, qs, he, b):
      return np.where(x <= he, qs, qs * (x / he) ** (-1.0 / b))
  \<close>
\<close>

definition Campbell ::
  "rounding \<Rightarrow> npfloat \<Rightarrow> npfloat \<Rightarrow> npfloat \<Rightarrow> npfloat \<Rightarrow> npfloat" where
  "Campbell r x qs he b =
     np_where (np_le x he) qs
       (np_mul r qs (np_pow r (np_div r x he) (np_div r (Fin (- 1)) b)))"

text \<open>
  \<^verbatim>\<open>
  def BC(x, qs, qr, lamda, sib):
      return np.where(x <= sib, qs, qr + (qs - qr) * (x / sib) ** (-lamda))
  \<close>
\<close>

definition BC ::
  "rounding \<Rightarrow> npfloat \<Rightarrow> npfloat \<Rightarrow> npfloat \<Rightarrow> npfloat \<Rightarrow> npfloat \<Rightarrow> npfloat" where
  "BC r x qs qr lamda sib =
     np_where (np_le x sib) qs
       (np_add r qr
          (np_mul r (np_sub r qs qr) (np_pow r (np_div r x sib) (np_neg lamda))))"

text \<open>
  \<^verbatim>\<open>
  def sig_symbol(p):
      if p > 0.05: return "ns"
      elif p > 0.01: return "*"
      elif p > 0.001: return "**"
      else: return "***"
  \<close>
  The literals \<^verbatim>\<open>0.05\<close>, \<^verbatim>\<open>0.01\<close> and \<^verbatim>\<open>0.001\<close> are the doubles nearest to these
  decimal numbers (each a little above it), and the comparison is with them.
\<close>

definition sig_symbol :: "npfloat \<Rightarrow> string" where
  "sig_symbol p =
     (if np_gt p (Fin (fl64 (5 / 100))) then ''ns''
      else if np_gt p (Fin (fl64 (1 / 100))) then ''*''
      else if np_gt p (Fin (fl64 (1 / 1000))) then ''**''
      else ''***'')"

subsection \<open>Reading a column of the input table\<close>

text \<open>
  \<^verbatim>\<open>load_file\<close> stores the file as a list of rows, each row the list of its cells
  (strings); row 0 is the header.
  \<^verbatim>\<open>
  def return_column(self, col):
      idx = self.in_file_data[0].index(col)
      return np.array([
          float(row[idx]) for row in self.in_file_data[1:]
          if row[idx].replace('.', '', 1).isdigit()
      ])
  \<close>
  An exception of Python is a value of the model. Strings are ASCII here (a
  \<^typ>\<open>char\<close> is a byte); \<^verbatim>\<open>str.isdigit\<close> also accepts digits outside ASCII,
  which this model does not have.
\<close>

datatype py_exception = ValueError | IndexError | TypeError

text \<open>\<^verbatim>\<open>list.index\<close>: the first position of the value, \<^verbatim>\<open>ValueError\<close> (here \<open>None\<close>)
  when it is absent.\<close>

fun index_of :: "'a list \<Rightarrow> 'a \<Rightarrow> nat option" where
  "index_of [] c = None"
| "index_of (h # hs) c = (if h = c then Some 0 else map_option Suc (index_of hs c))"

definition is_digit :: "char \<Rightarrow> bool" where
  "is_digit c = (c \<in> set ''0123456789'')"

text \<open>\<^verbatim>\<open>str.isdigit\<close>: at least one character, and all of them digits.\<close>

definition isdigit :: "string \<Rightarrow> bool" where
  "isdigit s = (s \<noteq> [] \<and> list_all is_digit s)"

text \<open>The filter of \<^verbatim>\<open>return_column\<close>; \<^verbatim>\<open>s.replace('.', '', 1)\<close> removes the
  first dot of \<open>s\<close>.\<close>

definition is_number_cell :: "string \<Rightarrow> bool" where
  "is_number_cell s = isdigit (remove1 (CHR ''.'') s)"

definition digit_value :: "char \<Rightarrow> nat" where
  "digit_value c = of_char c - 48"

definition digits_value :: "string \<Rightarrow> nat" where
  "digits_value s = foldl (\<lambda>acc c. 10 * acc + digit_value c) 0 s"

text \<open>
  \<^verbatim>\<open>float(s)\<close> for a cell that passed the filter, the only strings
  \<^verbatim>\<open>return_column\<close> converts: digits with at most one dot. On these \<^verbatim>\<open>float\<close> does
  not raise, and its value is the decimal number (here without the rounding to
  binary64).
\<close>

definition float_of_cell :: "string \<Rightarrow> real" where
  "float_of_cell s =
     (let ip = takeWhile (\<lambda>c. c \<noteq> CHR ''.'') s;
          fp = drop 1 (dropWhile (\<lambda>c. c \<noteq> CHR ''.'') s)
      in real (digits_value ip) + real (digits_value fp) / 10 ^ length fp)"

text \<open>The list comprehension: \<^verbatim>\<open>row[idx]\<close> raises \<^verbatim>\<open>IndexError\<close> on a row that is
  too short.\<close>

fun column_cells :: "nat \<Rightarrow> string list list \<Rightarrow> py_exception + real list" where
  "column_cells idx [] = Inr []"
| "column_cells idx (row # rows) =
     (if length row \<le> idx then Inl IndexError
      else if is_number_cell (row ! idx)
        then (case column_cells idx rows of
                Inl e \<Rightarrow> Inl e
              | Inr vs \<Rightarrow> Inr (float_of_cell (row ! idx) # vs))
      else column_cells idx rows)"

definition return_column :: "string list list \<Rightarrow> string \<Rightarrow> py_exception + real list" where
  "return_column in_file_data col =
     (case in_file_data of
        [] \<Rightarrow> Inl IndexError
      | header # rows \<Rightarrow>
          (case index_of header col of
             None \<Rightarrow> Inl ValueError
           | Some idx \<Rightarrow> column_cells idx rows))"

subsection \<open>The fit driver\<close>

text \<open>
  The fields of the application that \<^verbatim>\<open>curve\<close> reads: the table, the selections
  of the three combo boxes and the texts of the initial value entries
  (\<^verbatim>\<open>self.qs\<close>, ..., \<^verbatim>\<open>self.Campbell_b\<close>).
\<close>

record app =
  in_file_data :: "string list list"
  sand_select_combo :: string
  silt_select_combo :: string
  model_select_combo :: string
  var_qs :: string
  var_qr :: string
  var_alpha :: string
  var_n :: string
  var_lamda :: string
  var_sib :: string
  var_he :: string
  var_Campbell_b :: string

text \<open>
  What \<^verbatim>\<open>curve\<close> calls outside the program. A call that raises an exception
  returns \<open>Inl\<close> of the exception's message.
  \<^item> \<open>float_builtin\<close>: Python's \<^verbatim>\<open>float\<close> on the text of an entry;
  \<^item> \<open>curve_fit\<close>: \<^verbatim>\<open>scipy.optimize.curve_fit(f, xdata, ydata, p0)\<close>, which returns
    the fitted parameters and their covariance matrix;
  \<^item> \<open>asksaveasfilename\<close>: the answer of the save dialog, empty when cancelled;
  \<^item> \<open>str_popt\<close>, \<open>str_pcov\<close>: NumPy's rendering of the two arrays in the f-string.
  The file system and matplotlib are taken not to fail.
\<close>

type_synonym model_fun = "npfloat list \<Rightarrow> npfloat list \<Rightarrow> py_exception + npfloat list"

record externals =
  float_builtin :: "string \<Rightarrow> string + npfloat"
  curve_fit ::
    "model_fun \<Rightarrow> real list \<Rightarrow> real list \<Rightarrow> npfloat list
       \<Rightarrow> string + (npfloat list \<times> npfloat list list)"
  asksaveasfilename :: string
  str_popt :: "npfloat list \<Rightarrow> string"
  str_pcov :: "npfloat list list \<Rightarrow> string"

text \<open>The calls \<^verbatim>\<open>VG(x, *p)\<close>, \<^verbatim>\<open>Campbell(x, *p)\<close>, \<^verbatim>\<open>BC(x, *p)\<close> on an array
  \<open>x\<close>: a parameter list of the wrong length is a \<^verbatim>\<open>TypeError\<close>, otherwise the model
  is evaluated at every element.\<close>

definition call_VG :: "rounding \<Rightarrow> model_fun" where
  "call_VG r xs p =
     (case p of
        [qs, qr, alpha, n] \<Rightarrow> Inr (map (\<lambda>x. VG r x qs qr alpha n) xs)
      | _ \<Rightarrow> Inl TypeError)"

definition call_Campbell :: "rounding \<Rightarrow> model_fun" where
  "call_Campbell r xs p =
     (case p of
        [qs, he, b] \<Rightarrow> Inr (map (\<lambda>x. Campbell r x qs he b) xs)
      | _ \<Rightarrow> Inl TypeError)"

definition call_BC :: "rounding \<Rightarrow> model_fun" where
  "call_BC r xs p =
     (case p of
        [qs, qr, lamda, sib] \<Rightarrow> Inr (map (\<lambda>x. BC r x qs qr lamda sib) xs)
      | _ \<Rightarrow> Inl TypeError)"

text \<open>The list \<^verbatim>\<open>[float(a.get()), float(b.get()), ...]\<close>, evaluated from left to
  right: the first entry that is not a number raises.\<close>

fun floats :: "(string \<Rightarrow> string + npfloat) \<Rightarrow> string list \<Rightarrow> string + npfloat list" where
  "floats f [] = Inr []"
| "floats f (s # ss) =
     (case f s of
        Inl msg \<Rightarrow> Inl msg
      | Inr v \<Rightarrow> (case floats f ss of Inl msg \<Rightarrow> Inl msg | Inr vs \<Rightarrow> Inr (v # vs)))"

text \<open>The body of the \<^verbatim>\<open>try\<close> statement of \<^verbatim>\<open>curve\<close>: the model is chosen by the
  text of the combo box, the initial values are converted, \<^verbatim>\<open>curve_fit\<close> runs.
  \<open>Inl msg\<close> is an exception with \<^verbatim>\<open>str(e) = msg\<close>.\<close>

definition try_fit ::
  "rounding \<Rightarrow> externals \<Rightarrow> app \<Rightarrow> real list \<Rightarrow> real list
     \<Rightarrow> string + (npfloat list \<times> npfloat list list)" where
  "try_fit r ext a tension water =
     (let model = model_select_combo a in
      if model = ''Van Genuchten Model'' then
        (case floats (float_builtin ext) [var_qs a, var_qr a, var_alpha a, var_n a] of
           Inl msg \<Rightarrow> Inl msg
         | Inr p0 \<Rightarrow> curve_fit ext (call_VG r) tension water p0)
      else if model = ''Camopbell Model'' then
        (case floats (float_builtin ext) [var_qs a, var_he a, var_Campbell_b a] of
           Inl msg \<Rightarrow> Inl msg
         | Inr p0 \<Rightarrow> curve_fit ext (call_Campbell r) tension water p0)
      else
        (case floats (float_builtin ext) [var_qs a, var_qr a, var_lamda a, var_sib a] of
           Inl msg \<Rightarrow> Inl msg
         | Inr p0 \<Rightarrow> curve_fit ext (call_BC r) tension water p0))"

text \<open>What \<^verbatim>\<open>curve\<close> does that is seen from outside, in order.\<close>

datatype event =
    ShowWarning string string
  | WriteFile string string
  | PlotData "real list" "real list"
  | PlotCurve "real list" "npfloat list" string
  | PlotShow
  | Raise py_exception

text \<open>
  \<^verbatim>\<open>fout.write(f"Fitted Params: {popt}\nCovariance:\n{pcov}\n")\<close>
\<close>

definition results_text :: "externals \<Rightarrow> npfloat list \<Rightarrow> npfloat list list \<Rightarrow> string" where
  "results_text ext popt pcov =
     ''Fitted Params: '' @ str_popt ext popt @ [CHR 0x0A] @
     ''Covariance:'' @ [CHR 0x0A] @ str_pcov ext pcov @ [CHR 0x0A]"

text \<open>\<^verbatim>\<open>np.linspace(a, b, num)\<close> for \<open>num > 1\<close>: \<open>num\<close> points from \<open>a\<close> to \<open>b\<close>, the
  last one being \<open>b\<close> itself.\<close>

definition linspace :: "rounding \<Rightarrow> real \<Rightarrow> real \<Rightarrow> nat \<Rightarrow> real list" where
  "linspace r a b num =
     (let step = r (r (b - a) / real (num - 1))
      in map (\<lambda>i. r (r (real i * step) + a)) [0 ..< num - 1] @ [b])"

text \<open>The plot at the end of \<^verbatim>\<open>curve\<close>; \<^verbatim>\<open>min\<close> and \<^verbatim>\<open>max\<close> of an empty
  array raise \<^verbatim>\<open>ValueError\<close>.\<close>

definition plot :: "rounding \<Rightarrow> string \<Rightarrow> real list \<Rightarrow> real list \<Rightarrow> npfloat list \<Rightarrow> event list" where
  "plot r model tension water popt =
     (case tension of
        [] \<Rightarrow> [Raise ValueError]
      | t # ts \<Rightarrow>
          (let sim = linspace r (fold min ts t) (fold max ts t) 500;
               f = (if model = ''Van Genuchten Model'' then call_VG r
                    else if model = ''Camopbell Model'' then call_Campbell r
                    else call_BC r)
           in PlotData tension water #
              (case f (map Fin sim) popt of
                 Inl e \<Rightarrow> [Raise e]
               | Inr ys \<Rightarrow> [PlotCurve sim ys model, PlotShow])))"

definition curve :: "rounding \<Rightarrow> externals \<Rightarrow> app \<Rightarrow> event list" where
  "curve r ext a =
     (if in_file_data a = [] then [ShowWarning '' Warning'' ''Please choose a file'']
      else
        (case return_column (in_file_data a) (sand_select_combo a) of
           Inl e \<Rightarrow> [Raise e]
         | Inr water \<Rightarrow>
        (case return_column (in_file_data a) (silt_select_combo a) of
           Inl e \<Rightarrow> [Raise e]
         | Inr tension \<Rightarrow>
        (let model = model_select_combo a in
         if model = [] then [ShowWarning '' Warning'' ''Please select a model'']
         else
           (case try_fit r ext a tension water of
              Inl msg \<Rightarrow> [ShowWarning '' Fit Error'' msg]
            | Inr (popt, pcov) \<Rightarrow>
                (let file_path = asksaveasfilename ext in
                 (if file_path = [] then []
                  else [WriteFile file_path (results_text ext popt pcov)])
                 @ plot r model tension water popt))))))"

subsection \<open>Example inputs\<close>

text \<open>A table of five paired measurements, the application with the initial values
  that \<^verbatim>\<open>__init__\<close> sets, and an environment where the fit succeeds: it returns the
  initial values and a zero covariance matrix, rendered as NumPy prints them.\<close>

definition example_table :: "string list list" where
  "example_table =
     [[''water'', ''tension''],
      [''0.45'', ''1''],
      [''0.40'', ''10''],
      [''0.30'', ''100''],
      [''0.22'', ''1000''],
      [''0.20'', ''10000'']]"

definition example_app :: app where
  "example_app =
     \<lparr>in_file_data = example_table,
      sand_select_combo = ''water'', silt_select_combo = ''tension'',
      model_select_combo = ''Van Genuchten Model'',
      var_qs = ''0.5'', var_qr = ''0.2'', var_alpha = ''0.01'', var_n = ''2'',
      var_lamda = ''1'', var_sib = ''15'', var_he = ''1'', var_Campbell_b = ''4''\<rparr>"

definition example_externals :: externals where
  "example_externals =
     \<lparr>float_builtin =
        (\<lambda>s. if is_number_cell s then Inr (Fin (float_of_cell s))
             else Inl ''could not convert string to float''),
      curve_fit = (\<lambda>f xdata ydata p0. Inr (p0, map (\<lambda>_. map (\<lambda>_. Fin 0) p0) p0)),
      asksaveasfilename = ''result.txt'',
      str_popt = (\<lambda>popt. ''[0.5  0.2  0.01 2.  ]''),
      str_pcov =
        (\<lambda>pcov. ''[[0. 0. 0. 0.]'' @ [CHR 0x0A] @ '' [0. 0. 0. 0.]'' @ [CHR 0x0A] @
                '' [0. 0. 0. 0.]'' @ [CHR 0x0A] @ '' [0. 0. 0. 0.]]'')\<rparr>"

text \<open>The Campbell model selected, with the initial value \<open>he = 0\<close>, and an
  environment where \<^verbatim>\<open>curve_fit\<close> raises.\<close>

definition campbell_app :: app where
  "campbell_app = example_app\<lparr>model_select_combo := ''Camopbell Model'', var_he := ''0''\<rparr>"

definition failing_externals :: externals where
  "failing_externals =
     example_externals\<lparr>curve_fit := (\<lambda>f xdata ydata p0. Inl ''Optimal parameters not found'')\<rparr>"

text \<open>Two tables with cells that \<^verbatim>\<open>return_column\<close> drops: in the first the two columns
  lose different numbers of rows, in the second the same number, from different rows.\<close>

definition ragged_table :: "string list list" where
  "ragged_table =
     [[''water'', ''tension''],
      [''0.45'', ''1''],
      [''-'', ''10''],
      [''0.30'', ''100'']]"

definition ragged_app :: app where
  "ragged_app = example_app\<lparr>in_file_data := ragged_table\<rparr>"

definition shifted_table :: "string list list" where
  "shifted_table =
     [[''water'', ''tension''],
      [''0.45'', ''1''],
      ['''', ''10''],
      [''0.30'', ''1e2''],
      [''0.20'', ''1000'']]"

text \<open>The events that write a file.\<close>

fun is_WriteFile :: "event \<Rightarrow> bool" where
  "is_WriteFile (WriteFile path text) = True"
| "is_WriteFile _ = False"

section \<open>Properties\<close>

subsection \<open>The rounding of binary64\<close>

lemma floor_log2:
  fixes x :: real
  assumes "2 powi k \<le> \<bar>x\<bar>" "\<bar>x\<bar> < 2 powi (k + 1)"
  shows "\<lfloor>log 2 \<bar>x\<bar>\<rfloor> = k"
proof -
  have "(0::real) < 2 powi k" by simp
  then have pos: "0 < \<bar>x\<bar>"
    using assms(1) by linarith
  have "(2::real) powr real_of_int k \<le> \<bar>x\<bar>" "\<bar>x\<bar> < (2::real) powr (real_of_int k + 1)"
    using assms powr_real_of_int'[of "2::real" k] powr_real_of_int'[of "2::real" "k + 1"]
    by (simp_all add: add.commute)
  then show ?thesis
    using pos by (simp add: floor_log_eq_powr_iff)
qed

text \<open>A number between \<open>2^k\<close> and \<open>2^(k+1)\<close> is rounded to a multiple of \<open>2^(k-52)\<close>.\<close>

lemma fl64_in_binade:
  assumes "2 powi k \<le> \<bar>x\<bar>" "\<bar>x\<bar> < 2 powi (k + 1)"
  shows "fl64 x = of_int (round_half_even (x / 2 powi (k - 52))) * 2 powi (k - 52)"
proof -
  have "(0::real) < 2 powi k" by simp
  then have "0 < \<bar>x\<bar>" using assms(1) by linarith
  then have "x \<noteq> 0" by simp
  then show ?thesis
    by (simp add: fl64_def floor_log2[OF assms] Let_def)
qed

lemma round_half_even_near:
  assumes "of_int m - 1 / 2 < y" "y < of_int m + 1 / 2"
  shows "round_half_even y = m"
proof (cases "of_int m \<le> y")
  case True
  then have f: "\<lfloor>y\<rfloor> = m" using assms(2) by (simp add: floor_eq_iff)
  show ?thesis using assms(2) by (simp add: round_half_even_def f Let_def)
next
  case False
  then have f: "\<lfloor>y\<rfloor> = m - 1" using assms(1) by (simp add: floor_eq_iff)
  show ?thesis using assms(1) by (simp add: round_half_even_def f Let_def)
qed

lemma fl64_0: "fl64 0 = 0"
  by (simp add: fl64_def)

lemma fl64_1: "fl64 1 = 1"
  by (simp add: fl64_in_binade[of 0] round_half_even_def power_int_minus)

text \<open>The doubles that the literals of \<^verbatim>\<open>sig_symbol\<close> and the example values denote.\<close>

lemma fl64_thresholds:
  "fl64 (5 / 100) = 3602879701896397 / 2 ^ 56"
  "fl64 (1 / 100) = 5764607523034235 / 2 ^ 59"
  "fl64 (1 / 1000) = 1152921504606847 / 2 ^ 60"
  by (simp_all add: fl64_in_binade[of "- 5"] fl64_in_binade[of "- 7"]
        fl64_in_binade[of "- 10"] round_half_even_def power_int_minus)

lemma fl64_p_values:
  "fl64 (4 / 100) = 5764607523034235 / 2 ^ 57"
  "fl64 (2 / 10) = 3602879701896397 / 2 ^ 54"
  by (simp_all add: fl64_in_binade[of "- 5"] fl64_in_binade[of "- 3"]
        round_half_even_def power_int_minus)

subsection \<open>The power in exact arithmetic\<close>

lemma pow_fin_pos: "0 < a \<Longrightarrow> pow_fin exact a b = Fin (a powr b)"
  by (simp add: pow_fin_def exact_def)

lemma pow_fin_nonneg: "0 \<le> a \<Longrightarrow> 0 < b \<Longrightarrow> pow_fin exact a b = Fin (a powr b)"
  by (simp add: pow_fin_def exact_def)

lemma not_integer_between:
  assumes "0 < e" "e < 1"
  shows "\<not> is_integer e \<and> \<not> is_integer (- e)"
proof -
  have "\<lfloor>e\<rfloor> = 0" using assms by (simp add: floor_eq_iff)
  moreover have "\<lfloor>- e\<rfloor> = - 1" using assms by (simp add: floor_eq_iff)
  ultimately show ?thesis
    using assms by (simp add: is_integer_def)
qed

lemma reciprocal_pow_fin:
  assumes "0 < e" "e < 1"
  shows "np_div exact (Fin 1) (pow_fin exact a e) = pow_fin exact a (- e)"
proof -
  have ni: "\<not> is_integer e" "\<not> is_integer (- e)"
    using not_integer_between[OF assms] by simp_all
  consider "a = 1" | "0 < a" "a \<noteq> 1" | "a = 0" | "a < 0" by linarith
  then show ?thesis
  proof cases
    case 1
    then show ?thesis using assms by (simp add: pow_fin_def exact_def)
  next
    case 2
    then show ?thesis using assms
      by (simp add: pow_fin_def exact_def powr_minus_divide)
  next
    case 3
    then show ?thesis using assms by (simp add: pow_fin_def exact_def inf_of_def)
  next
    case 4
    then show ?thesis using assms ni by (simp add: pow_fin_def)
  qed
qed

lemma reciprocal_np_pow:
  assumes "0 < e" "e < 1"
  shows "np_div exact (Fin 1) (np_pow exact A (Fin e)) = np_pow exact A (Fin (- e))"
proof (cases A)
  case (Fin a)
  then show ?thesis using reciprocal_pow_fin[OF assms] by simp
next
  case PInf
  then show ?thesis using assms by simp
next
  case NInf
  then show ?thesis using assms by simp
next
  case NaN
  then show ?thesis using assms by simp
qed

lemma VG_exact_nonneg:
  assumes "0 \<le> x" "0 \<le> alpha" "1 < n"
  shows "VG exact (Fin x) (Fin qs) (Fin qr) (Fin alpha) (Fin n) =
     Fin (1 / ((1 + (alpha * x) powr n) powr (1 - 1 / n)) * (qs - qr) + qr)"
proof -
  have a: "0 \<le> alpha * x" using assms by simp
  have b: "0 < 1 + (alpha * x) powr n"
    by (simp add: add_pos_nonneg)
  have p1: "pow_fin exact (alpha * x) n = Fin ((alpha * x) powr n)"
    using a assms(3) by (simp add: pow_fin_nonneg)
  have p2: "pow_fin exact (1 + (alpha * x) powr n) (1 - 1 / n)
            = Fin ((1 + (alpha * x) powr n) powr (1 - 1 / n))"
    using b by (rule pow_fin_pos)
  have nz: "(1 + (alpha * x) powr n) powr (1 - 1 / n) \<noteq> 0"
    using b by simp
  show ?thesis
    using assms(3) nz
    by (simp add: VG_def np_sub_def Let_def p1 p2 exact_def)
qed

subsection \<open>The Van Genuchten formula in binary64\<close>

lemma sqrt2_scaled:
  "6369051672525773 - 1 / 2 < sqrt 2 * 2 ^ 52" "sqrt 2 * 2 ^ 52 < 6369051672525773 + 1 / 2"
proof -
  have "sqrt 2 * sqrt ((2 ^ 52)\<^sup>2) = sqrt (2 * (2 ^ 52)\<^sup>2)"
    by (rule real_sqrt_mult[symmetric])
  then have e: "sqrt 2 * 2 ^ 52 = sqrt (2 * (2 ^ 52)\<^sup>2)"
    by simp
  show "6369051672525773 - 1 / 2 < sqrt 2 * 2 ^ 52"
    unfolding e by (rule real_less_rsqrt) (simp add: power2_eq_square)
  show "sqrt 2 * 2 ^ 52 < 6369051672525773 + 1 / 2"
    unfolding e by (rule real_less_lsqrt) (simp_all add: power2_eq_square)
qed

lemma sqrt2_bounds: "1 \<le> sqrt 2" "sqrt 2 < 2"
proof -
  show "1 \<le> sqrt 2" by simp
  have "sqrt 2 < sqrt (2\<^sup>2)" by (subst real_sqrt_less_iff) simp
  then show "sqrt 2 < 2" by simp
qed

lemma round_sqrt2: "round_half_even (sqrt 2 * 2 ^ 52) = 6369051672525773"
  using sqrt2_scaled by (intro round_half_even_near) simp_all

lemma fl64_sqrt2: "fl64 (2 powr (1 / 2)) = 6369051672525773 / 2 ^ 52"
proof -
  have "fl64 (sqrt 2) = 6369051672525773 / 2 ^ 52"
    using sqrt2_bounds round_sqrt2 by (simp add: fl64_in_binade[of 0] power_int_minus)
  then show ?thesis by (simp add: powr_half_sqrt)
qed

lemma fl64_inv_sqrt2: "fl64 (2 powr (- (1 / 2))) = 6369051672525773 / 2 ^ 53"
proof -
  have "sqrt 2 * sqrt 2 = 2" by simp
  then have "1 / sqrt 2 = sqrt 2 / 2"
    by (simp add: field_simps)
  then have v: "2 powr (- (1 / 2)) = sqrt 2 / 2"
    by (simp add: powr_minus_divide powr_half_sqrt)
  have b: "1 / 2 \<le> sqrt 2 / 2" "sqrt 2 / 2 < 1"
    using sqrt2_bounds by simp_all
  have r: "round_half_even (4503599627370496 * sqrt 2) = 6369051672525773"
    using round_sqrt2 by (simp add: mult.commute)
  have "fl64 (sqrt 2 / 2) = 6369051672525773 / 2 ^ 53"
    using b by (subst fl64_in_binade[of "- 1"]) (simp_all add: r power_int_minus)
  then show ?thesis by (simp only: v)
qed


lemma fl64_small_values:
  "fl64 2 = 2" "fl64 (1 / 2) = 1 / 2"
  by (simp_all add: fl64_in_binade[of 1] fl64_in_binade[of "- 1"] round_half_even_def
        power_int_minus)

lemma VG_code_at_100:
  "VG fl64 (Fin 100) (Fin (1 / 2)) (Fin 0) (Fin (fl64 (1 / 100))) (Fin 2)
     = Fin (6369051672525772 / 2 ^ 54)"
proof -
  have ax: "np_mul fl64 (Fin (fl64 (1 / 100))) (Fin 100) = Fin 1"
    unfolding fl64_thresholds
    by (simp add: fl64_in_binade[of 0] round_half_even_def power_int_minus)
  have A: "np_add fl64 (Fin 1) (np_pow fl64 (Fin 1) (Fin 2)) = Fin 2"
    by (simp add: pow_fin_def fl64_small_values)
  have E: "np_sub fl64 (Fin 1) (np_div fl64 (Fin 1) (Fin 2)) = Fin (1 / 2)"
    by (simp add: np_sub_def fl64_small_values)
  have P: "np_pow fl64 (Fin 2) (Fin (1 / 2)) = Fin (6369051672525773 / 2 ^ 52)"
    by (simp add: pow_fin_def fl64_sqrt2)
  have S: "np_div fl64 (Fin 1) (Fin (6369051672525773 / 2 ^ 52))
             = Fin (1592262918131443 / 2 ^ 51)"
    by (simp add: fl64_in_binade[of "- 1"] round_half_even_def power_int_minus)
  have D: "np_sub fl64 (Fin (1 / 2)) (Fin 0) = Fin (1 / 2)"
    by (simp add: np_sub_def fl64_small_values)
  have M: "np_mul fl64 (Fin (1592262918131443 / 2 ^ 51)) (Fin (1 / 2))
             = Fin (6369051672525772 / 2 ^ 54)"
    by (simp add: fl64_in_binade[of "- 2"] round_half_even_def power_int_minus)
  have R: "np_add fl64 (Fin (6369051672525772 / 2 ^ 54)) (Fin 0)
             = Fin (6369051672525772 / 2 ^ 54)"
    by (simp add: fl64_in_binade[of "- 2"] round_half_even_def power_int_minus)
  show ?thesis
    unfolding VG_def Let_def ax A E P S D M R ..
qed

lemma VG_spec_at_100:
  "VG_spec fl64 (Fin 100) (Fin (1 / 2)) (Fin 0) (Fin (fl64 (1 / 100))) (Fin 2)
     = Fin (6369051672525773 / 2 ^ 54)"
proof -
  have ax: "np_mul fl64 (Fin (fl64 (1 / 100))) (Fin 100) = Fin 1"
    unfolding fl64_thresholds
    by (simp add: fl64_in_binade[of 0] round_half_even_def power_int_minus)
  have A: "np_add fl64 (Fin 1) (np_pow fl64 (Fin 1) (Fin 2)) = Fin 2"
    by (simp add: pow_fin_def fl64_small_values)
  have E: "np_sub fl64 (Fin 1) (np_div fl64 (Fin 1) (Fin 2)) = Fin (1 / 2)"
    by (simp add: np_sub_def fl64_small_values)
  have P: "np_pow fl64 (Fin 2) (np_neg (Fin (1 / 2))) = Fin (6369051672525773 / 2 ^ 53)"
    using fl64_inv_sqrt2 by (simp add: pow_fin_def)
  have D: "np_sub fl64 (Fin (1 / 2)) (Fin 0) = Fin (1 / 2)"
    by (simp add: np_sub_def fl64_small_values)
  have M: "np_mul fl64 (Fin (6369051672525773 / 2 ^ 53)) (Fin (1 / 2))
             = Fin (6369051672525773 / 2 ^ 54)"
    by (simp add: fl64_in_binade[of "- 2"] round_half_even_def power_int_minus)
  have R: "np_add fl64 (Fin (6369051672525773 / 2 ^ 54)) (Fin 0)
             = Fin (6369051672525773 / 2 ^ 54)"
    by (simp add: fl64_in_binade[of "- 2"] round_half_even_def power_int_minus)
  show ?thesis
    unfolding VG_spec_def Se_spec_def ax A E P D M R ..
qed

text \<open>
  Claim C1, as stated: \<open>VG\<close> computes exactly the formula of the specification. In
  binary64 it does not. At \<open>x = 100\<close>, \<open>qs = 0.5\<close>, \<open>qr = 0\<close>, \<open>alpha = 0.01\<close>, \<open>n = 2\<close>
  the base of the power is \<open>2.0\<close>; the code's \<open>1 / (2.0 ** 0.5)\<close> is
  \<open>0.7071067811865475\<close>, the specification's \<open>2.0 ** (-0.5)\<close> is
  \<open>0.7071067811865476\<close>, and the two predictions are \<open>0.35355339059327373\<close> and
  \<open>0.3535533905932738\<close>.
\<close>

theorem VG_is_spec_formula_counterexample:
  "VG fl64 (Fin 100) (Fin (1 / 2)) (Fin 0) (Fin (fl64 (1 / 100))) (Fin 2)
     = Fin (6369051672525772 / 2 ^ 54) \<and>
   VG_spec fl64 (Fin 100) (Fin (1 / 2)) (Fin 0) (Fin (fl64 (1 / 100))) (Fin 2)
     = Fin (6369051672525773 / 2 ^ 54) \<and>
   VG fl64 (Fin 100) (Fin (1 / 2)) (Fin 0) (Fin (fl64 (1 / 100))) (Fin 2)
     \<noteq> VG_spec fl64 (Fin 100) (Fin (1 / 2)) (Fin 0) (Fin (fl64 (1 / 100))) (Fin 2)"
  unfolding VG_code_at_100 VG_spec_at_100 by simp


text \<open>
  Claim C1, amended. In exact arithmetic, for every tension \<open>x\<close> and all parameters
  with \<open>n > 1\<close> and \<open>alpha > 0\<close>, \<open>VG\<close> returns \<open>Se (qs - qr) + qr\<close> with the effective
  saturation \<open>Se = (1 + (alpha x)^n)^(-(1 - 1/n))\<close> of the specification: the two
  agree for every \<open>x\<close> (also where the power of a negative base is NaN), and for
  \<open>x \<ge> 0\<close> the value is the real number given by the formula. The code computes
  \<open>Se\<close> as the reciprocal of the power with exponent \<open>1 - 1/n\<close>.
\<close>

theorem VG_is_spec_formula:
  assumes "1 < n" "0 < alpha"
  shows "VG exact (Fin x) (Fin qs) (Fin qr) (Fin alpha) (Fin n)
           = VG_spec exact (Fin x) (Fin qs) (Fin qr) (Fin alpha) (Fin n)
         \<and> (0 \<le> x \<longrightarrow>
              VG exact (Fin x) (Fin qs) (Fin qr) (Fin alpha) (Fin n)
                = Fin ((1 + (alpha * x) powr n) powr (- (1 - 1 / n)) * (qs - qr) + qr))"
proof
  have e: "0 < 1 - 1 / n" "1 - 1 / n < 1" using assms(1) by simp_all
  have ex: "np_sub exact (Fin 1) (np_div exact (Fin 1) (Fin n)) = Fin (1 - 1 / n)"
    using assms(1) by (simp add: np_sub_def exact_def)
  show "VG exact (Fin x) (Fin qs) (Fin qr) (Fin alpha) (Fin n)
           = VG_spec exact (Fin x) (Fin qs) (Fin qr) (Fin alpha) (Fin n)"
    unfolding VG_def VG_spec_def Se_spec_def Let_def ex
    using reciprocal_np_pow[OF e] by simp
  show "0 \<le> x \<longrightarrow>
              VG exact (Fin x) (Fin qs) (Fin qr) (Fin alpha) (Fin n)
                = Fin ((1 + (alpha * x) powr n) powr (- (1 - 1 / n)) * (qs - qr) + qr)"
  proof
    assume x: "0 \<le> x"
    have inv: "1 / ((1 + (alpha * x) powr n) powr (1 - 1 / n))
                 = (1 + (alpha * x) powr n) powr (- (1 - 1 / n))"
      by (rule powr_minus_divide[symmetric])
    show "VG exact (Fin x) (Fin qs) (Fin qr) (Fin alpha) (Fin n)
            = Fin ((1 + (alpha * x) powr n) powr (- (1 - 1 / n)) * (qs - qr) + qr)"
      using VG_exact_nonneg[of x alpha n qs qr] x assms unfolding inv by simp
  qed
qed

theorem VG_is_spec_formula_witness:
  "(1::real) < 3 / 2 \<and> (0::real) < 1 / 50 \<and>
   VG exact (Fin 10) (Fin (1 / 2)) (Fin (1 / 10)) (Fin (1 / 50)) (Fin (3 / 2))
     = VG_spec exact (Fin 10) (Fin (1 / 2)) (Fin (1 / 10)) (Fin (1 / 50)) (Fin (3 / 2)) \<and>
   (0::real) \<le> 10 \<and>
   VG exact (Fin 10) (Fin (1 / 2)) (Fin (1 / 10)) (Fin (1 / 50)) (Fin (3 / 2))
     = Fin ((1 + (1 / 50 * 10) powr (3 / 2)) powr (- (1 - 1 / (3 / 2))) * (1 / 2 - 1 / 10)
            + 1 / 10)"
proof -
  have h: "(1::real) < 3 / 2" "(0::real) < 1 / 50" "(0::real) \<le> 10"
    by simp_all
  show ?thesis
    using h VG_is_spec_formula[OF h(1) h(2), of 10 "1 / 2" "1 / 10"] by blast
qed

subsection \<open>The piecewise models\<close>





text \<open>
  Claim C6. In the flat region the models return \<open>qs\<close> itself: \<open>Campbell\<close> for every
  \<open>x \<le> he\<close>, \<open>BC\<close> for every \<open>x \<le> sib\<close>. This holds for every rounding and for all
  values of the other parameters (also infinite ones and NaN), since \<^verbatim>\<open>np.where\<close>
  selects \<open>qs\<close> unchanged.
\<close>

theorem flat_region_is_qs:
  "(x \<le> he \<longrightarrow> Campbell r (Fin x) qs (Fin he) b = qs) \<and>
   (y \<le> sib \<longrightarrow> BC r (Fin y) qs qr lamda (Fin sib) = qs)"
  by (simp add: Campbell_def BC_def np_where_def)

theorem flat_region_is_qs_witness:
  "(1::real) \<le> 2 \<and> Campbell fl64 (Fin 1) (Fin (1 / 2)) (Fin 2) (Fin 4) = Fin (1 / 2) \<and>
   (10::real) \<le> 15 \<and> BC fl64 (Fin 10) (Fin (1 / 2)) (Fin (1 / 5)) (Fin 1) (Fin 15) = Fin (1 / 2)"
  using flat_region_is_qs[where x = 1 and he = 2 and r = fl64 and qs = "Fin (1 / 2)"
      and b = "Fin 4" and y = 10 and sib = 15 and qr = "Fin (1 / 5)" and lamda = "Fin 1"]
  by simp


subsection \<open>The significance symbol\<close>

lemma sig_symbol_bands:
  "sig_symbol (Fin p) =
     (if 3602879701896397 / 2 ^ 56 < p then ''ns''
      else if 5764607523034235 / 2 ^ 59 < p then ''*''
      else if 1152921504606847 / 2 ^ 60 < p then ''**''
      else ''***'')"
  unfolding sig_symbol_def np_gt_def fl64_thresholds by (simp add: not_le)

text \<open>
  Claim C4. \<open>sig_symbol\<close> returns \<open>ns\<close> if \<open>p > 0.05\<close>, \<open>*\<close> if \<open>0.01 < p \<le> 0.05\<close>,
  \<open>**\<close> if \<open>0.001 < p \<le> 0.01\<close> and \<open>***\<close> if \<open>p \<le> 0.001\<close>; \<open>p = 0.04\<close> gives \<open>*\<close> and
  \<open>p = 0.2\<close> gives \<open>ns\<close>. The bounds and the two values are the doubles that these
  literals denote, so that \<open>p = 0.05\<close>, \<open>p = 0.01\<close> and \<open>p = 0.001\<close> fall in the band
  below the bound, as in the program.
\<close>

theorem sig_symbol_mapping:
  "(fl64 (5 / 100) < p \<longrightarrow> sig_symbol (Fin p) = ''ns'') \<and>
   (fl64 (1 / 100) < p \<and> p \<le> fl64 (5 / 100) \<longrightarrow> sig_symbol (Fin p) = ''*'') \<and>
   (fl64 (1 / 1000) < p \<and> p \<le> fl64 (1 / 100) \<longrightarrow> sig_symbol (Fin p) = ''**'') \<and>
   (p \<le> fl64 (1 / 1000) \<longrightarrow> sig_symbol (Fin p) = ''***'') \<and>
   sig_symbol (Fin (fl64 (4 / 100))) = ''*'' \<and>
   sig_symbol (Fin (fl64 (2 / 10))) = ''ns'' \<and>
   sig_symbol (Fin (fl64 (5 / 100))) = ''*'' \<and>
   sig_symbol (Fin (fl64 (1 / 100))) = ''**'' \<and>
   sig_symbol (Fin (fl64 (1 / 1000))) = ''***''"
proof -
  have bands: "(fl64 (5 / 100) < p \<longrightarrow> sig_symbol (Fin p) = ''ns'') \<and>
   (fl64 (1 / 100) < p \<and> p \<le> fl64 (5 / 100) \<longrightarrow> sig_symbol (Fin p) = ''*'') \<and>
   (fl64 (1 / 1000) < p \<and> p \<le> fl64 (1 / 100) \<longrightarrow> sig_symbol (Fin p) = ''**'') \<and>
   (p \<le> fl64 (1 / 1000) \<longrightarrow> sig_symbol (Fin p) = ''***'')"
    unfolding sig_symbol_bands fl64_thresholds by auto
  have vals: "sig_symbol (Fin (fl64 (4 / 100))) = ''*''"
    "sig_symbol (Fin (fl64 (2 / 10))) = ''ns''"
    "sig_symbol (Fin (fl64 (5 / 100))) = ''*''"
    "sig_symbol (Fin (fl64 (1 / 100))) = ''**''"
    "sig_symbol (Fin (fl64 (1 / 1000))) = ''***''"
    unfolding fl64_thresholds fl64_p_values sig_symbol_bands by simp_all
  show ?thesis using bands vals by blast
qed

theorem sig_symbol_mapping_witness:
  "(fl64 (5 / 100) < fl64 (2 / 10) \<and> sig_symbol (Fin (fl64 (2 / 10))) = ''ns'') \<and>
   (fl64 (1 / 100) < fl64 (5 / 100) \<and> fl64 (5 / 100) \<le> fl64 (5 / 100)
      \<and> sig_symbol (Fin (fl64 (5 / 100))) = ''*'') \<and>
   (fl64 (1 / 1000) < fl64 (1 / 100) \<and> fl64 (1 / 100) \<le> fl64 (1 / 100)
      \<and> sig_symbol (Fin (fl64 (1 / 100))) = ''**'') \<and>
   (fl64 (1 / 1000) \<le> fl64 (1 / 1000) \<and> sig_symbol (Fin (fl64 (1 / 1000))) = ''***'')"
proof -
  have h: "fl64 (5 / 100) < fl64 (2 / 10)" "fl64 (1 / 100) < fl64 (5 / 100)"
    "fl64 (1 / 1000) < fl64 (1 / 100)"
    unfolding fl64_thresholds fl64_p_values by simp_all
  show ?thesis
    using h sig_symbol_mapping[of "fl64 (2 / 10)"] sig_symbol_mapping[of "fl64 (5 / 100)"]
      sig_symbol_mapping[of "fl64 (1 / 100)"] sig_symbol_mapping[of "fl64 (1 / 1000)"]
    by auto
qed

subsection \<open>Monotonicity\<close>






subsection \<open>The break point in binary64\<close>










subsection \<open>Zero tension\<close>

lemma VG_at_zero:
  assumes "0 < n" "r 0 = 0" "r 1 = 1"
  shows "VG r (Fin 0) (Fin qs) (Fin qr) (Fin alpha) (Fin n) = Fin (r (r (r (qs - qr)) + qr))"
  using assms by (simp add: VG_def np_sub_def pow_fin_def Let_def)

lemma fl64_045: "fl64 (45 / 100) = 8106479329266893 / 2 ^ 54"
  by (simp add: fl64_in_binade[of "- 2"] round_half_even_def power_int_minus)

lemma fl64_01: "fl64 (1 / 10) = 3602879701896397 / 2 ^ 55"
  by (simp add: fl64_in_binade[of "- 4"] round_half_even_def power_int_minus)

lemma fl64_sub: "fl64 (8106479329266893 / 2 ^ 54 - 3602879701896397 / 2 ^ 55) = 3152519739159347 / 2 ^ 53"
  by (simp add: fl64_in_binade[of "- 2"] round_half_even_def power_int_minus)

lemma fl64_idem: "fl64 (3152519739159347 / 2 ^ 53) = 3152519739159347 / 2 ^ 53"
  by (simp add: fl64_in_binade[of "- 2"] round_half_even_def power_int_minus)

lemma fl64_add: "fl64 (3152519739159347 / 2 ^ 53 + 3602879701896397 / 2 ^ 55) = 8106479329266892 / 2 ^ 54"
  by (simp add: fl64_in_binade[of "- 2"] round_half_even_def power_int_minus)

text \<open>
  Claim C10, as stated: at zero tension \<open>VG\<close> returns \<open>qs\<close> exactly. In binary64 it does
  not: with \<open>qs = 0.45\<close> and \<open>qr = 0.1\<close> (the doubles nearest to them), \<open>alpha = 0.01\<close> and
  \<open>n = 2\<close>, the effective saturation is \<open>1.0\<close> and \<open>1.0 * (0.45 - 0.1) + 0.1\<close> is
  \<open>0.44999999999999996\<close>, the double below \<open>0.45\<close>.
\<close>

theorem VG_zero_tension_counterexample:
  "VG fl64 (Fin 0) (Fin (fl64 (45 / 100))) (Fin (fl64 (1 / 10))) (Fin (fl64 (1 / 100))) (Fin 2)
     = Fin (8106479329266892 / 2 ^ 54) \<and>
   fl64 (45 / 100) = 8106479329266893 / 2 ^ 54 \<and>
   VG fl64 (Fin 0) (Fin (fl64 (45 / 100))) (Fin (fl64 (1 / 10))) (Fin (fl64 (1 / 100))) (Fin 2)
     \<noteq> Fin (fl64 (45 / 100))"
proof -
  have v: "VG fl64 (Fin 0) (Fin (fl64 (45 / 100))) (Fin (fl64 (1 / 10))) (Fin (fl64 (1 / 100))) (Fin 2)
     = Fin (8106479329266892 / 2 ^ 54)"
    by (simp only: VG_at_zero[of 2 fl64, OF _ fl64_0 fl64_1] fl64_045 fl64_01 fl64_sub
          fl64_idem fl64_add)
  from v have neq:
    "VG fl64 (Fin 0) (Fin (fl64 (45 / 100))) (Fin (fl64 (1 / 10))) (Fin (fl64 (1 / 100))) (Fin 2)
       \<noteq> Fin (fl64 (45 / 100))"
    unfolding v by (simp only: fl64_045) simp
  show ?thesis
    using v fl64_045 neq by blast
qed

text \<open>
  Claim C10, amended. At zero tension and for \<open>n > 0\<close> the effective saturation is
  one and \<open>VG\<close> returns \<open>(qs - qr) + qr\<close>: in exact arithmetic this is \<open>qs\<close>, in binary64
  it is the rounded sum of the rounded difference and \<open>qr\<close>.
\<close>

theorem VG_zero_tension:
  assumes "0 < n"
  shows "VG exact (Fin 0) (Fin qs) (Fin qr) (Fin alpha) (Fin n) = Fin qs
         \<and> VG fl64 (Fin 0) (Fin qs) (Fin qr) (Fin alpha) (Fin n)
             = Fin (fl64 (fl64 (fl64 (qs - qr)) + qr))"
  using assms VG_at_zero[of n exact qs qr alpha] VG_at_zero[OF _ fl64_0 fl64_1, of n qs qr alpha]
  by (simp add: exact_def)

theorem VG_zero_tension_witness:
  "(0::real) < 2 \<and>
   VG exact (Fin 0) (Fin (1 / 2)) (Fin (1 / 5)) (Fin (1 / 100)) (Fin 2) = Fin (1 / 2) \<and>
   VG fl64 (Fin 0) (Fin (1 / 2)) (Fin (1 / 5)) (Fin (1 / 100)) (Fin 2)
     = Fin (fl64 (fl64 (fl64 (1 / 2 - 1 / 5)) + 1 / 5))"
proof -
  have h: "(0::real) < 2" by simp
  show ?thesis
    using h VG_zero_tension[OF h, of "1 / 2" "1 / 5" "1 / 100"] by blast
qed

subsection \<open>Reading the columns\<close>

lemma dot_not_digit: "is_digit c \<Longrightarrow> c \<noteq> CHR ''.''"
  by (auto simp: is_digit_def)

lemma digits_no_dot: "list_all is_digit s \<Longrightarrow> CHR ''.'' \<notin> set s"
  using dot_not_digit by (auto simp: list_all_iff)

lemma remove1_dot_digits: "list_all is_digit s \<Longrightarrow> remove1 (CHR ''.'') s = s"
  using digits_no_dot by (simp add: remove1_idem)

lemma is_number_cell_iff:
  "is_number_cell s \<longleftrightarrow>
     (\<exists>ip fp. (s = ip @ fp \<or> s = ip @ CHR ''.'' # fp) \<and> list_all is_digit (ip @ fp) \<and> ip @ fp \<noteq> [])"
proof
  assume a: "is_number_cell s"
  show "\<exists>ip fp. (s = ip @ fp \<or> s = ip @ CHR ''.'' # fp) \<and> list_all is_digit (ip @ fp) \<and> ip @ fp \<noteq> []"
  proof (cases "CHR ''.'' \<in> set s")
    case True
    from split_list_first[OF True]
    obtain ip fp where s: "s = ip @ CHR ''.'' # fp" and nd: "CHR ''.'' \<notin> set ip"
      by blast
    have r: "remove1 (CHR ''.'') s = ip @ fp"
      unfolding s using nd by (simp add: remove1_append)
    have "list_all is_digit (ip @ fp) \<and> ip @ fp \<noteq> []"
      using a unfolding is_number_cell_def isdigit_def r by simp
    then show ?thesis using s by blast
  next
    case False
    have r: "remove1 (CHR ''.'') s = s" using False by (rule remove1_idem)
    have "list_all is_digit (s @ []) \<and> s @ [] \<noteq> []"
      using a unfolding is_number_cell_def isdigit_def r by simp
    moreover have "s = s @ []" by simp
    ultimately show ?thesis by blast
  qed
next
  assume "\<exists>ip fp. (s = ip @ fp \<or> s = ip @ CHR ''.'' # fp) \<and> list_all is_digit (ip @ fp) \<and> ip @ fp \<noteq> []"
  then obtain ip fp where h: "s = ip @ fp \<or> s = ip @ CHR ''.'' # fp"
    and d: "list_all is_digit (ip @ fp)" and ne: "ip @ fp \<noteq> []"
    by blast
  have nd: "CHR ''.'' \<notin> set ip"
    using digits_no_dot[OF d] by simp
  from h have "remove1 (CHR ''.'') s = ip @ fp"
  proof
    assume "s = ip @ fp"
    then show ?thesis using remove1_dot_digits[OF d] by simp
  next
    assume "s = ip @ CHR ''.'' # fp"
    then show ?thesis using nd by (simp add: remove1_append)
  qed
  then show "is_number_cell s"
    using d ne unfolding is_number_cell_def isdigit_def by simp
qed


text \<open>
  Claim C9. \<^verbatim>\<open>return_column\<close> filters each column on its own: it keeps the cells made
  of digits with at most one dot (and at least one digit), so a negative number, a
  number in scientific notation and an empty cell are dropped. Hence the water
  content and the tension that \<^verbatim>\<open>curve\<close> takes from one table may differ in length
  (\<open>ragged_table\<close>, for which the fit is called with three tensions and two water
  contents) or pair values of different rows (\<open>shifted_table\<close>, where \<open>0.30\<close> is paired
  with \<open>10\<close> and not with the \<open>1e2\<close> of its row).
\<close>

theorem columns_filtered_independently:
  "(is_number_cell s \<longleftrightarrow>
      (\<exists>ip fp. (s = ip @ fp \<or> s = ip @ CHR ''.'' # fp)
         \<and> list_all is_digit (ip @ fp) \<and> ip @ fp \<noteq> [])) \<and>
   is_number_cell ''0.35'' = True \<and> is_number_cell ''-5'' = False \<and>
   is_number_cell ''1e3'' = False \<and> is_number_cell '''' = False \<and>
   is_number_cell ''1.2.3'' = False \<and>
   return_column ragged_table ''water'' = Inr [45 / 100, 30 / 100] \<and>
   return_column ragged_table ''tension'' = Inr [1, 10, 100] \<and>
   return_column shifted_table ''water'' = Inr [45 / 100, 30 / 100, 20 / 100] \<and>
   return_column shifted_table ''tension'' = Inr [1, 10, 1000] \<and>
   curve r ext ragged_app =
     (case try_fit r ext ragged_app [1, 10, 100] [45 / 100, 30 / 100] of
        Inl msg \<Rightarrow> [ShowWarning '' Fit Error'' msg]
      | Inr (popt, pcov) \<Rightarrow>
          (if asksaveasfilename ext = [] then []
           else [WriteFile (asksaveasfilename ext) (results_text ext popt pcov)])
          @ plot r ''Van Genuchten Model'' [1, 10, 100] [45 / 100, 30 / 100] popt)"
proof -
  have cells: "is_number_cell ''0.35'' = True \<and> is_number_cell ''-5'' = False \<and>
   is_number_cell ''1e3'' = False \<and> is_number_cell '''' = False \<and>
   is_number_cell ''1.2.3'' = False"
    by (simp add: is_number_cell_def isdigit_def is_digit_def)
  have rw: "return_column ragged_table ''water'' = Inr [45 / 100, 30 / 100]"
    by (simp add: ragged_table_def return_column_def is_number_cell_def isdigit_def
          is_digit_def float_of_cell_def digits_value_def digit_value_def)
  have rt: "return_column ragged_table ''tension'' = Inr [1, 10, 100]"
    by (simp add: ragged_table_def return_column_def is_number_cell_def isdigit_def
          is_digit_def float_of_cell_def digits_value_def digit_value_def)
  have sw: "return_column shifted_table ''water'' = Inr [45 / 100, 30 / 100, 20 / 100]"
    by (simp add: shifted_table_def return_column_def is_number_cell_def isdigit_def
          is_digit_def float_of_cell_def digits_value_def digit_value_def)
  have st: "return_column shifted_table ''tension'' = Inr [1, 10, 1000]"
    by (simp add: shifted_table_def return_column_def is_number_cell_def isdigit_def
          is_digit_def float_of_cell_def digits_value_def digit_value_def)
  have app: "in_file_data ragged_app = ragged_table" "ragged_table \<noteq> []"
    "sand_select_combo ragged_app = ''water''" "silt_select_combo ragged_app = ''tension''"
    "model_select_combo ragged_app = ''Van Genuchten Model''"
    by (simp_all add: ragged_app_def example_app_def ragged_table_def)
  have c: "curve r ext ragged_app =
     (case try_fit r ext ragged_app [1, 10, 100] [45 / 100, 30 / 100] of
        Inl msg \<Rightarrow> [ShowWarning '' Fit Error'' msg]
      | Inr (popt, pcov) \<Rightarrow>
          (if asksaveasfilename ext = [] then []
           else [WriteFile (asksaveasfilename ext) (results_text ext popt pcov)])
          @ plot r ''Van Genuchten Model'' [1, 10, 100] [45 / 100, 30 / 100] popt)"
    unfolding curve_def Let_def app rw rt
    by (simp only: app(2) sum.case list.distinct if_False)
  show ?thesis
    using is_number_cell_iff[of s] cells rw rt sw st c by blast
qed

subsection \<open>What a successful fit reports\<close>

lemma plot_writes_nothing: "filter is_WriteFile (plot r model tension water popt) = []"
  by (simp add: plot_def Let_def split: list.splits sum.splits)

lemma ex_cols:
  "return_column example_table ''water'' = Inr [45 / 100, 40 / 100, 30 / 100, 22 / 100, 20 / 100]"
  "return_column example_table ''tension'' = Inr [1, 10, 100, 1000, 10000]"
  by (simp_all add: example_table_def return_column_def is_number_cell_def isdigit_def is_digit_def
        float_of_cell_def digits_value_def digit_value_def)

lemma ex_p0:
  "floats (float_builtin example_externals) [''0.5'', ''0.2'', ''0.01'', ''2'']
     = Inr [Fin (5 / 10), Fin (2 / 10), Fin (1 / 100), Fin 2]"
  by (simp add: example_externals_def is_number_cell_def isdigit_def is_digit_def
        float_of_cell_def digits_value_def digit_value_def)

lemma ex_fit:
  "try_fit r example_externals example_app t w =
     Inr ([Fin (5 / 10), Fin (2 / 10), Fin (1 / 100), Fin 2],
          [[Fin 0, Fin 0, Fin 0, Fin 0], [Fin 0, Fin 0, Fin 0, Fin 0],
           [Fin 0, Fin 0, Fin 0, Fin 0], [Fin 0, Fin 0, Fin 0, Fin 0]])"
proof -
  have m: "model_select_combo example_app = ''Van Genuchten Model''"
    "var_qs example_app = ''0.5''" "var_qr example_app = ''0.2''"
    "var_alpha example_app = ''0.01''" "var_n example_app = ''2''"
    by (simp_all add: example_app_def)
  have cf: "curve_fit example_externals f t w p0 = Inr (p0, map (\<lambda>_. map (\<lambda>_. Fin 0) p0) p0)" for f p0
    by (simp add: example_externals_def)
  show ?thesis
    unfolding try_fit_def Let_def m ex_p0 cf by simp
qed


lemma ex_app:
  "in_file_data example_app = example_table" "in_file_data example_app \<noteq> []"
  "sand_select_combo example_app = ''water''" "silt_select_combo example_app = ''tension''"
  "model_select_combo example_app = ''Van Genuchten Model''"
  "model_select_combo example_app \<noteq> []"
  by (simp_all add: example_app_def example_table_def)

lemma ex_ext:
  "asksaveasfilename example_externals = ''result.txt''"
  "asksaveasfilename example_externals \<noteq> []"
  "str_popt example_externals p = ''[0.5  0.2  0.01 2.  ]''"
  "str_pcov example_externals c = ''[[0. 0. 0. 0.]'' @ [CHR 0x0A] @ '' [0. 0. 0. 0.]'' @ [CHR 0x0A] @
                '' [0. 0. 0. 0.]'' @ [CHR 0x0A] @ '' [0. 0. 0. 0.]]''"
  by (simp_all add: example_externals_def)

text \<open>
  Claim C5, as stated: every successful fit produces a result that includes the
  standard errors, t-statistics, p-values and significance symbols. It does not:
  for the example application and a successful fit, the only file \<^verbatim>\<open>curve\<close> writes
  holds the fitted parameters and the covariance matrix, and no significance
  symbol (\<open>ns\<close>, or one made of \<open>*\<close>) occurs in it.
\<close>

theorem no_significance_in_output_counterexample:
  "filter is_WriteFile (curve exact example_externals example_app) =
     [WriteFile ''result.txt''
        (''Fitted Params: [0.5  0.2  0.01 2.  ]'' @ [CHR 0x0A] @
         ''Covariance:'' @ [CHR 0x0A] @
         ''[[0. 0. 0. 0.]'' @ [CHR 0x0A] @ '' [0. 0. 0. 0.]'' @ [CHR 0x0A] @
         '' [0. 0. 0. 0.]'' @ [CHR 0x0A] @ '' [0. 0. 0. 0.]]'' @ [CHR 0x0A])] \<and>
   \<not> sublist ''ns''
       (''Fitted Params: [0.5  0.2  0.01 2.  ]'' @ [CHR 0x0A] @
         ''Covariance:'' @ [CHR 0x0A] @
         ''[[0. 0. 0. 0.]'' @ [CHR 0x0A] @ '' [0. 0. 0. 0.]'' @ [CHR 0x0A] @
         '' [0. 0. 0. 0.]'' @ [CHR 0x0A] @ '' [0. 0. 0. 0.]]'' @ [CHR 0x0A]) \<and>
   \<not> sublist ''*''
       (''Fitted Params: [0.5  0.2  0.01 2.  ]'' @ [CHR 0x0A] @
         ''Covariance:'' @ [CHR 0x0A] @
         ''[[0. 0. 0. 0.]'' @ [CHR 0x0A] @ '' [0. 0. 0. 0.]'' @ [CHR 0x0A] @
         '' [0. 0. 0. 0.]'' @ [CHR 0x0A] @ '' [0. 0. 0. 0.]]'' @ [CHR 0x0A])"
proof -
  have c: "curve exact example_externals example_app =
     WriteFile ''result.txt'' (results_text example_externals
        [Fin (5 / 10), Fin (2 / 10), Fin (1 / 100), Fin 2]
          [[Fin 0, Fin 0, Fin 0, Fin 0], [Fin 0, Fin 0, Fin 0, Fin 0],
           [Fin 0, Fin 0, Fin 0, Fin 0], [Fin 0, Fin 0, Fin 0, Fin 0]])
       # plot exact ''Van Genuchten Model'' [1, 10, 100, 1000, 10000]
           [45 / 100, 40 / 100, 30 / 100, 22 / 100, 20 / 100]
           [Fin (5 / 10), Fin (2 / 10), Fin (1 / 100), Fin 2]"
    unfolding curve_def Let_def ex_app ex_cols ex_fit ex_ext
    by (simp add: example_table_def)
  have "filter is_WriteFile (curve exact example_externals example_app) =
     [WriteFile ''result.txt''
        (''Fitted Params: [0.5  0.2  0.01 2.  ]'' @ [CHR 0x0A] @
         ''Covariance:'' @ [CHR 0x0A] @
         ''[[0. 0. 0. 0.]'' @ [CHR 0x0A] @ '' [0. 0. 0. 0.]'' @ [CHR 0x0A] @
         '' [0. 0. 0. 0.]'' @ [CHR 0x0A] @ '' [0. 0. 0. 0.]]'' @ [CHR 0x0A])]"
    unfolding c by (simp add: plot_writes_nothing results_text_def ex_ext)
  moreover have "\<not> sublist ''ns''
       (''Fitted Params: [0.5  0.2  0.01 2.  ]'' @ [CHR 0x0A] @
         ''Covariance:'' @ [CHR 0x0A] @
         ''[[0. 0. 0. 0.]'' @ [CHR 0x0A] @ '' [0. 0. 0. 0.]'' @ [CHR 0x0A] @
         '' [0. 0. 0. 0.]'' @ [CHR 0x0A] @ '' [0. 0. 0. 0.]]'' @ [CHR 0x0A])"
    by (simp add: sublist_code(3))
  moreover have "\<not> sublist ''*''
       (''Fitted Params: [0.5  0.2  0.01 2.  ]'' @ [CHR 0x0A] @
         ''Covariance:'' @ [CHR 0x0A] @
         ''[[0. 0. 0. 0.]'' @ [CHR 0x0A] @ '' [0. 0. 0. 0.]'' @ [CHR 0x0A] @
         '' [0. 0. 0. 0.]'' @ [CHR 0x0A] @ '' [0. 0. 0. 0.]]'' @ [CHR 0x0A])"
    by (simp add: sublist_code(3))
  ultimately show ?thesis by blast
qed


text \<open>
  Claim C5, amended. When the columns are read, a model is selected, the fit succeeds
  with parameters \<open>popt\<close> and covariance \<open>pcov\<close> and a file is chosen, \<^verbatim>\<open>curve\<close> writes one
  file, whose text is \<open>Fitted Params:\<close> with \<open>popt\<close> and \<open>Covariance:\<close> with \<open>pcov\<close>, and
  then plots; nothing else is reported (\<open>sig_symbol\<close> is not called).
\<close>

theorem curve_result_text:
  assumes "in_file_data a \<noteq> []"
    and "return_column (in_file_data a) (sand_select_combo a) = Inr water"
    and "return_column (in_file_data a) (silt_select_combo a) = Inr tension"
    and "model_select_combo a \<noteq> []"
    and "try_fit r ext a tension water = Inr (popt, pcov)"
    and "asksaveasfilename ext \<noteq> []"
  shows "curve r ext a =
           WriteFile (asksaveasfilename ext)
             (''Fitted Params: '' @ str_popt ext popt @ [CHR 0x0A] @
              ''Covariance:'' @ [CHR 0x0A] @ str_pcov ext pcov @ [CHR 0x0A])
           # plot r (model_select_combo a) tension water popt
         \<and> filter is_WriteFile (curve r ext a) =
           [WriteFile (asksaveasfilename ext)
             (''Fitted Params: '' @ str_popt ext popt @ [CHR 0x0A] @
              ''Covariance:'' @ [CHR 0x0A] @ str_pcov ext pcov @ [CHR 0x0A])]"
proof -
  have c: "curve r ext a =
           WriteFile (asksaveasfilename ext) (results_text ext popt pcov)
           # plot r (model_select_combo a) tension water popt"
    using assms by (simp add: curve_def Let_def)
  show ?thesis
    unfolding c by (simp add: plot_writes_nothing results_text_def)
qed

theorem curve_result_text_witness:
  "in_file_data example_app \<noteq> [] \<and>
   return_column (in_file_data example_app) (sand_select_combo example_app)
     = Inr [45 / 100, 40 / 100, 30 / 100, 22 / 100, 20 / 100] \<and>
   return_column (in_file_data example_app) (silt_select_combo example_app)
     = Inr [1, 10, 100, 1000, 10000] \<and>
   model_select_combo example_app \<noteq> [] \<and>
   asksaveasfilename example_externals \<noteq> [] \<and>
   filter is_WriteFile (curve exact example_externals example_app) =
     [WriteFile ''result.txt''
        (''Fitted Params: [0.5  0.2  0.01 2.  ]'' @ [CHR 0x0A] @
         ''Covariance:'' @ [CHR 0x0A] @
         ''[[0. 0. 0. 0.]'' @ [CHR 0x0A] @ '' [0. 0. 0. 0.]'' @ [CHR 0x0A] @
         '' [0. 0. 0. 0.]'' @ [CHR 0x0A] @ '' [0. 0. 0. 0.]]'' @ [CHR 0x0A])]"
proof -
  have w: "return_column (in_file_data example_app) (sand_select_combo example_app)
     = Inr [45 / 100, 40 / 100, 30 / 100, 22 / 100, 20 / 100]"
    and t: "return_column (in_file_data example_app) (silt_select_combo example_app)
     = Inr [1, 10, 100, 1000, 10000]"
    by (simp_all only: ex_app ex_cols)
  show ?thesis
    using curve_result_text[OF ex_app(2) w t ex_app(6) ex_fit ex_ext(2), of exact]
      w t ex_app(2) ex_app(6) ex_ext(2)
    by (simp add: ex_ext plot_writes_nothing)
qed


subsection \<open>A fit with \<open>he = 0\<close>\<close>

lemma Campbell_he_zero:
  assumes "0 < b"
  shows "Campbell exact (Fin x) (Fin qs) (Fin 0) (Fin b) = Fin (if x \<le> 0 then qs else 0)"
  using assms by (simp add: Campbell_def np_where_def inf_of_def exact_def)

lemma campbell_app_fields:
  "in_file_data campbell_app = example_table" "in_file_data campbell_app \<noteq> []"
  "sand_select_combo campbell_app = ''water''" "silt_select_combo campbell_app = ''tension''"
  "model_select_combo campbell_app = ''Camopbell Model''"
  "model_select_combo campbell_app \<noteq> []"
  "var_qs campbell_app = ''0.5''" "var_he campbell_app = ''0''"
  "var_Campbell_b campbell_app = ''4''"
  by (simp_all add: campbell_app_def example_app_def example_table_def)

lemma campbell_p0:
  "floats (float_builtin failing_externals) [''0.5'', ''0'', ''4'']
     = Inr [Fin (5 / 10), Fin 0, Fin 4]"
  by (simp add: failing_externals_def example_externals_def is_number_cell_def isdigit_def
        is_digit_def float_of_cell_def digits_value_def digit_value_def)

lemma campbell_fit_raises:
  "try_fit r failing_externals campbell_app t w = Inl ''Optimal parameters not found''"
proof -
  have cf: "curve_fit failing_externals f t w p0 = Inl ''Optimal parameters not found''"
    for f p0
    by (simp add: failing_externals_def)
  show ?thesis
    unfolding try_fit_def Let_def campbell_app_fields campbell_p0 cf by simp
qed

text \<open>
  Claim C8, as stated: a Campbell fit with the initial value \<open>he = 0\<close> has the
  offending evaluation rejected by a \<open>ModelDomainError\<close>. It has not: the evaluation of
  the model at \<open>qs = 0.5\<close>, \<open>he = 0\<close>, \<open>b = 4\<close> on the tensions \<open>1, 10, 100\<close> returns, with
  the finite predictions \<open>0, 0, 0\<close> (\<open>x / 0\<close> is \<open>inf\<close>, and \<open>inf ** (-0.25)\<close> is \<open>0\<close>):
  there is no error, and nothing is rejected.
\<close>

theorem Campbell_he_zero_counterexample:
  "call_Campbell exact [Fin 1, Fin 10, Fin 100] [Fin (1 / 2), Fin 0, Fin 4]
     = Inr [Fin 0, Fin 0, Fin 0]"
  by (simp add: call_Campbell_def Campbell_he_zero)

text \<open>
  Claim C8, amended. With \<open>he = 0\<close> and \<open>b > 0\<close> the Campbell model raises nothing and
  returns \<open>qs\<close> for \<open>x \<le> 0\<close> and \<open>0\<close> for \<open>x > 0\<close>. The program has no \<open>ModelDomainError\<close>:
  what it handles is an exception raised inside the \<^verbatim>\<open>try\<close> statement (by \<^verbatim>\<open>float\<close> or
  by \<^verbatim>\<open>curve_fit\<close>), which \<^verbatim>\<open>curve\<close> reports as a \<open>Fit Error\<close> warning and nothing else,
  so that no exception of the fit escapes.
\<close>

theorem fit_exception_is_caught:
  assumes "in_file_data a \<noteq> []"
    and "return_column (in_file_data a) (sand_select_combo a) = Inr water"
    and "return_column (in_file_data a) (silt_select_combo a) = Inr tension"
    and "model_select_combo a \<noteq> []"
    and "try_fit r ext a tension water = Inl msg"
  shows "curve r ext a = [ShowWarning '' Fit Error'' msg]
         \<and> (0 < b \<longrightarrow>
              Campbell exact (Fin x) (Fin qs) (Fin 0) (Fin b) = Fin (if x \<le> 0 then qs else 0))"
  using assms by (simp add: curve_def Let_def Campbell_he_zero)

theorem fit_exception_is_caught_witness:
  "in_file_data campbell_app \<noteq> [] \<and>
   return_column (in_file_data campbell_app) (sand_select_combo campbell_app)
     = Inr [45 / 100, 40 / 100, 30 / 100, 22 / 100, 20 / 100] \<and>
   return_column (in_file_data campbell_app) (silt_select_combo campbell_app)
     = Inr [1, 10, 100, 1000, 10000] \<and>
   model_select_combo campbell_app \<noteq> [] \<and>
   try_fit exact failing_externals campbell_app [1, 10, 100, 1000, 10000]
       [45 / 100, 40 / 100, 30 / 100, 22 / 100, 20 / 100]
     = Inl ''Optimal parameters not found'' \<and>
   curve exact failing_externals campbell_app
     = [ShowWarning '' Fit Error'' ''Optimal parameters not found''] \<and>
   (0::real) < 4 \<and>
   Campbell exact (Fin 10) (Fin (1 / 2)) (Fin 0) (Fin 4) = Fin (if (10::real) \<le> 0 then 1 / 2 else 0)"
proof -
  have w: "return_column (in_file_data campbell_app) (sand_select_combo campbell_app)
     = Inr [45 / 100, 40 / 100, 30 / 100, 22 / 100, 20 / 100]"
    and t: "return_column (in_file_data campbell_app) (silt_select_combo campbell_app)
     = Inr [1, 10, 100, 1000, 10000]"
    by (simp_all only: campbell_app_fields ex_cols)
  have b: "(0::real) < 4" by simp
  show ?thesis
    using fit_exception_is_caught[OF campbell_app_fields(2) w t campbell_app_fields(6)
        campbell_fit_raises, of exact 4 10 "1 / 2"]
      w t campbell_app_fields(2) campbell_app_fields(6) campbell_fit_raises b
    by blast
qed

end
